theory Spec2Isabelle
  imports Complex_Main "HOL-Library.Word"
begin

unbundle bit_operations_syntax

section \<open>Machine types\<close>

type_synonym byte = "8 word"
type_synonym uint32 = "32 word"
type_synonym uint64 = "64 word"

text \<open>Go's \<open>int64\<close> is a 64-bit word read as two's complement (\<open>sint\<close>).\<close>

type_synonym int64 = "64 word"

section \<open>Library functions the node calls\<close>

subsection \<open>encoding/hex\<close>

text \<open>
  \<open>hex.DecodeString\<close> accepts both cases of the letters, fails on a character that is
  not a hex digit and on an odd length, and returns the bytes decoded before the failure
  together with the error.  The second component is \<open>True\<close> when the error is not nil.
\<close>

definition fromHexChar :: "char \<Rightarrow> nat option" where
  "fromHexChar c =
     (let n = (of_char c :: nat) in
      if 48 \<le> n \<and> n \<le> 57 then Some (n - 48)
      else if 97 \<le> n \<and> n \<le> 102 then Some (n - 87)
      else if 65 \<le> n \<and> n \<le> 70 then Some (n - 55)
      else None)"

fun DecodeString :: "string \<Rightarrow> byte list \<times> bool" where
  "DecodeString [] = ([], False)"
| "DecodeString [p] = ([], True)"
| "DecodeString (p # q # rest) =
     (case fromHexChar p of
        None \<Rightarrow> ([], True)
      | Some a \<Rightarrow>
         (case fromHexChar q of
            None \<Rightarrow> ([], True)
          | Some b \<Rightarrow> (word_of_nat (16 * a + b) # fst (DecodeString rest), snd (DecodeString rest))))"

definition hexDigit :: "nat \<Rightarrow> char" where
  "hexDigit n = (if n < 10 then char_of (48 + n) else char_of (87 + n))"

definition EncodeToString :: "byte list \<Rightarrow> string" where
  "EncodeToString bs = concat (map (\<lambda>b. [hexDigit (unat b div 16), hexDigit (unat b mod 16)]) bs)"

subsection \<open>math/big\<close>

text \<open>A \<open>big.Int\<close> is an \<open>int\<close>.  \<open>SetBytes\<close> reads a big-endian unsigned number.\<close>

definition SetBytes :: "byte list \<Rightarrow> int" where
  "SetBytes bs = foldl (\<lambda>acc b. acc * 256 + uint b) 0 bs"

text \<open>\<open>Bytes\<close> is the big-endian representation of the absolute value, without leading zeros.\<close>

fun nat_bytes :: "nat \<Rightarrow> byte list" where
  "nat_bytes n = (if n = 0 then [] else nat_bytes (n div 256) @ [word_of_nat (n mod 256)])"

declare nat_bytes.simps [simp del]

definition Bytes :: "int \<Rightarrow> byte list" where
  "Bytes x = nat_bytes (nat \<bar>x\<bar>)"

section \<open>Compact targets (pow.go)\<close>

definition CompactToBig :: "uint32 \<Rightarrow> int" where
  "CompactToBig compact0 =
     (let mantissa = compact0 AND 0x007fffff;
          isNegative = (compact0 AND 0x00800000 \<noteq> 0);
          exponent = drop_bit 24 compact0;
          bn = (if exponent \<le> 3
                then uint (drop_bit (8 * (3 - unat exponent)) mantissa)
                else push_bit (8 * (unat exponent - 3)) (uint mantissa))
      in if isNegative then - bn else bn)"

fun be_word :: "byte list \<Rightarrow> nat \<Rightarrow> uint32" where
  "be_word [] i = 0"
| "be_word (v # vs) i = push_bit (8 * (2 - i)) (ucast v) OR be_word vs (Suc i)"

definition BigToCompact :: "int \<Rightarrow> uint32" where
  "BigToCompact target =
     (if target = 0 then 0
      else
        let b = Bytes target;
            sz = (word_of_nat (length b) :: uint32);
            compact0 =
              (if sz \<le> 3 then push_bit 24 sz OR be_word b 0
               else push_bit 24 sz OR push_bit 16 (ucast (b ! 0)) OR push_bit 8 (ucast (b ! 1))
                      OR ucast (b ! 2))
        in if compact0 AND 0x00800000 \<noteq> 0
           then push_bit 24 (sz + 1) OR (drop_bit 8 compact0 AND 0x007fffff)
           else compact0)"

text \<open>\<open>CheckProofOfWork\<close> of pow.go: only a decoding error rejects the hash string.\<close>

definition pow_CheckProofOfWork :: "string \<Rightarrow> uint32 \<Rightarrow> bool" where
  "pow_CheckProofOfWork hash bits =
     (let target = CompactToBig bits;
          d = DecodeString hash
      in if snd d then False else SetBytes (fst d) \<le> target)"

section \<open>Targets and the progressive floor\<close>

definition BitsToTarget :: "uint32 \<Rightarrow> int" where
  "BitsToTarget bits =
     (let exponent = drop_bit 24 bits;
          mantissa = bits AND 0x007FFFFF;
          target = uint mantissa
      in if exponent \<le> 3 then drop_bit (unat (8 * (3 - exponent))) target
         else push_bit (unat (8 * (exponent - 3))) target)"

definition TargetToBits :: "int \<Rightarrow> uint32" where
  "TargetToBits target =
     (if target = 0 then 0
      else
        let bytes = Bytes target;
            exponent = (word_of_nat (length bytes) :: uint32);
            mantissa =
              (if length bytes \<ge> 3
               then push_bit 16 (ucast (bytes ! 0)) OR push_bit 8 (ucast (bytes ! 1))
                      OR ucast (bytes ! 2)
               else if length bytes = 2 then push_bit 8 (ucast (bytes ! 0)) OR ucast (bytes ! 1)
               else ucast (bytes ! 0))
        in if mantissa AND 0x800000 \<noteq> 0
           then push_bit 24 (exponent + 1) OR drop_bit 8 mantissa
           else push_bit 24 exponent OR mantissa)"

text \<open>\<open>CheckProofOfWork\<close> as validateBlock uses it, with the length test.\<close>

definition CheckProofOfWork :: "string \<Rightarrow> uint32 \<Rightarrow> bool" where
  "CheckProofOfWork hashHex bits =
     (let d = DecodeString hashHex
      in if snd d \<or> length (fst d) \<noteq> 32 then False
         else SetBytes (fst d) \<le> BitsToTarget bits)"

definition ProgressiveDifficultyFloor :: "uint64 \<Rightarrow> uint64 \<Rightarrow> uint32 \<Rightarrow> uint32" where
  "ProgressiveDifficultyFloor height epochBlocks minBits =
     (if epochBlocks = 0 then minBits
      else
        let epoch = height div epochBlocks in
        if epoch = 0 then minBits
        else
          let epoch' = (if epoch > 60 then 60 else epoch);
              maxTarget = BitsToTarget minBits;
              floorTarget = drop_bit (unat epoch') maxTarget
          in TargetToBits (if floorTarget = 0 then 1 else floorTarget))"

definition ApplyProgressiveDifficulty :: "uint32 \<Rightarrow> uint64 \<Rightarrow> uint64 \<Rightarrow> uint32 \<Rightarrow> uint32" where
  "ApplyProgressiveDifficulty bits height epochBlocks minBits =
     (let floorBits = ProgressiveDifficultyFloor height epochBlocks minBits
      in if BitsToTarget bits > BitsToTarget floorBits then floorBits else bits)"

subsection \<open>crypto/sha256\<close>

text \<open>
  SHA-256 as FIPS 180-4 defines it.  A 32-bit word is a \<open>nat\<close> below \<open>2 ^ 32\<close>;
  \<open>M32\<close> is the reduction modulo \<open>2 ^ 32\<close>.
\<close>

definition M32 :: "nat \<Rightarrow> nat" where
  "M32 x = x AND 4294967295"

definition rotr :: "nat \<Rightarrow> nat \<Rightarrow> nat" where
  "rotr n x = drop_bit n x OR M32 (push_bit (32 - n) x)"

definition not32 :: "nat \<Rightarrow> nat" where
  "not32 x = x XOR 4294967295"

definition K256 :: "nat list" where
  "K256 =
     [
      1116352408, 1899447441, 3049323471, 3921009573, 961987163, 1508970993,
      2453635748, 2870763221, 3624381080, 310598401, 607225278, 1426881987,
      1925078388, 2162078206, 2614888103, 3248222580, 3835390401, 4022224774,
      264347078, 604807628, 770255983, 1249150122, 1555081692, 1996064986,
      2554220882, 2821834349, 2952996808, 3210313671, 3336571891, 3584528711,
      113926993, 338241895, 666307205, 773529912, 1294757372, 1396182291,
      1695183700, 1986661051, 2177026350, 2456956037, 2730485921, 2820302411,
      3259730800, 3345764771, 3516065817, 3600352804, 4094571909, 275423344,
      430227734, 506948616, 659060556, 883997877, 958139571, 1322822218,
      1537002063, 1747873779, 1955562222, 2024104815, 2227730452, 2361852424,
      2428436474, 2756734187, 3204031479, 3329325298]"

definition H256 :: "nat list" where
  "H256 =
     [
      1779033703, 3144134277, 1013904242, 2773480762, 1359893119, 2600822924,
      528734635, 1541459225]"

definition ssig0 :: "nat \<Rightarrow> nat" where
  "ssig0 x = rotr 7 x XOR rotr 18 x XOR drop_bit 3 x"

definition ssig1 :: "nat \<Rightarrow> nat" where
  "ssig1 x = rotr 17 x XOR rotr 19 x XOR drop_bit 10 x"

definition bsig0 :: "nat \<Rightarrow> nat" where
  "bsig0 x = rotr 2 x XOR rotr 13 x XOR rotr 22 x"

definition bsig1 :: "nat \<Rightarrow> nat" where
  "bsig1 x = rotr 6 x XOR rotr 11 x XOR rotr 25 x"

definition sha_T1 :: "nat \<Rightarrow> nat \<Rightarrow> nat \<Rightarrow> nat \<Rightarrow> nat \<Rightarrow> nat \<Rightarrow> nat" where
  "sha_T1 e f g h k w = M32 (h + bsig1 e + ((e AND f) XOR (not32 e AND g)) + k + w)"

definition sha_T2 :: "nat \<Rightarrow> nat \<Rightarrow> nat \<Rightarrow> nat" where
  "sha_T2 a b c = M32 (bsig0 a + ((a AND b) XOR (a AND c) XOR (b AND c)))"

fun sha_shift :: "nat \<Rightarrow> nat \<Rightarrow> nat list \<Rightarrow> nat list" where
  "sha_shift t1 t2 [a, b, c, d, e, f, g, h] = [M32 (t1 + t2), a, b, c, M32 (d + t1), e, f, g]"
| "sha_shift _ _ s = s"

fun sha_step :: "nat list \<Rightarrow> nat \<Rightarrow> nat \<Rightarrow> nat list" where
  "sha_step [a, b, c, d, e, f, g, h] k w =
     sha_shift (sha_T1 e f g h k w) (sha_T2 a b c) [a, b, c, d, e, f, g, h]"
| "sha_step s _ _ = s"

text \<open>The message schedule as a window of the sixteen most recent words, oldest first.\<close>

fun sha_nextw :: "nat list \<Rightarrow> nat" where
  "sha_nextw [w0, w1, w2, w3, w4, w5, w6, w7, w8, w9, w10, w11, w12, w13, w14, w15] =
     M32 (ssig1 w14 + w9 + ssig0 w1 + w0)"
| "sha_nextw _ = 0"

fun sha_rounds :: "nat list \<Rightarrow> nat list \<Rightarrow> nat list \<Rightarrow> nat list" where
  "sha_rounds s [] win = s"
| "sha_rounds s (k # ks) win = sha_rounds (sha_step s k (hd win)) ks (tl win @ [sha_nextw win])"

fun sha_add :: "nat list \<Rightarrow> nat list \<Rightarrow> nat list" where
  "sha_add (x # xs) (y # ys) = M32 (x + y) # sha_add xs ys"
| "sha_add _ _ = []"

definition sha_compress :: "nat list \<Rightarrow> nat list \<Rightarrow> nat list" where
  "sha_compress hs ws = sha_add hs (sha_rounds hs K256 ws)"

fun sha_words :: "nat list \<Rightarrow> nat list" where
  "sha_words (a # b # c # d # r) = (((a * 256 + b) * 256 + c) * 256 + d) # sha_words r"
| "sha_words _ = []"

fun sha_blocks :: "nat list \<Rightarrow> nat list \<Rightarrow> nat list" where
  "sha_blocks hs [] = hs"
| "sha_blocks hs (w # ws) = sha_blocks (sha_compress hs (take 16 (w # ws))) (drop 16 (w # ws))"

definition be4 :: "nat \<Rightarrow> nat list" where
  "be4 v = [v div 16777216 mod 256, v div 65536 mod 256, v div 256 mod 256, v mod 256]"

definition be8 :: "nat \<Rightarrow> nat list" where
  "be8 v = be4 (v div 4294967296) @ be4 (v mod 4294967296)"

definition sha_pad :: "nat list \<Rightarrow> nat list" where
  "sha_pad m = m @ [128] @ replicate ((119 - length m mod 64) mod 64) 0 @ be8 (8 * length m)"

definition Sum256 :: "byte list \<Rightarrow> byte list" where
  "Sum256 data =
     map word_of_nat (concat (map be4 (sha_blocks H256 (sha_words (sha_pad (map unat data))))))"

section \<open>Blocks and transactions\<close>

text \<open>
  Amounts are Go \<open>float64\<close> values.  They are kept abstract: the type \<open>'a\<close> of
  amounts only has to carry the operations the code uses (\<open>0\<close>, \<open>1\<close>, \<open>+\<close>, \<open>-\<close>,
  \<open>/\<close>, \<open><\<close>, \<open>\<le>\<close>), and no law about them is assumed, so that rounding and
  NaN do not matter to what is proved.  Concrete runs instantiate \<open>'a\<close> with \<open>rat\<close>,
  on amounts that binary floating point represents exactly.
\<close>

record BlockHeader =
  Version :: uint32
  PrevHash :: string
  MerkleRoot :: string
  Timestamp :: int64
  Bits :: uint32
  Nonce :: uint64
  Height :: uint64

record 'a TxOutput =
  out_Address :: string
  out_Amount :: 'a

record 'a Transaction =
  TxID :: string
  Type :: string
  From :: string
  To :: string
  Amount :: 'a
  Fee :: 'a
  tx_Timestamp :: int64
  Signature :: string
  Outputs :: "'a TxOutput list"

record 'a Block =
  Header :: BlockHeader
  Transactions :: "'a Transaction list"
  Hash :: string

record 'a Stake =
  stake_Address :: string
  stake_Amount :: 'a
  stake_BlockHeight :: uint64

record 'a NetworkConfig =
  InitialReward :: 'a
  HalvingInterval :: uint64
  MaxSupply :: 'a
  MinDifficultyBits :: uint32
  MinStakeAmount :: 'a
  MaxBlockSize :: uint64
  MaxBlockTransactions :: uint64
  POSMinThreshold :: 'a
  DifficultyEpochBlocks :: uint64

subsection \<open>Header serialization\<close>

definition PutUint32 :: "uint32 \<Rightarrow> byte list" where
  "PutUint32 v = [ucast v, ucast (drop_bit 8 v), ucast (drop_bit 16 v), ucast (drop_bit 24 v)]"

definition PutUint64 :: "uint64 \<Rightarrow> byte list" where
  "PutUint64 v = [ucast v, ucast (drop_bit 8 v), ucast (drop_bit 16 v), ucast (drop_bit 24 v),
                  ucast (drop_bit 32 v), ucast (drop_bit 40 v), ucast (drop_bit 48 v),
                  ucast (drop_bit 56 v)]"

definition padHashBytes :: "string \<Rightarrow> byte list" where
  "padHashBytes hexStr =
     (let decoded = fst (DecodeString hexStr)
      in if length decoded < 32 then replicate (32 - length decoded) 0 @ decoded
         else take 32 decoded)"

definition Serialize :: "BlockHeader \<Rightarrow> byte list" where
  "Serialize h =
     PutUint32 (Version h) @ padHashBytes (PrevHash h) @ padHashBytes (MerkleRoot h)
       @ PutUint64 (Timestamp h) @ PutUint32 (Bits h) @ PutUint64 (Nonce h)"

definition bytes_of :: "string \<Rightarrow> byte list" where
  "bytes_of s = map (\<lambda>c. word_of_nat (of_char c)) s"

definition SHA256d :: "byte list \<Rightarrow> byte list" where
  "SHA256d data = Sum256 (Sum256 data)"

definition ComputeHash :: "BlockHeader \<Rightarrow> string" where
  "ComputeHash h = EncodeToString (SHA256d (Serialize h))"

subsection \<open>encoding/json\<close>

text \<open>
  \<open>json.Marshal\<close> on the structs of the node: the fields in the order of their
  declaration, under the names of their tags, an \<open>omitempty\<close> field left out when it is
  the empty string or a slice without elements.  The rendering of a \<open>float64\<close> is the
  parameter \<open>fmtFloat\<close> (\<open>strconv\<close> on a finite value).  Strings are escaped as
  \<open>encoding/json\<close> escapes ASCII; a nil slice and an empty one are not told apart, and
  the transactions of a block without transactions are rendered as \<open>null\<close>.
\<close>

fun decimal :: "nat \<Rightarrow> string" where
  "decimal n = (if n < 10 then [char_of (48 + n)] else decimal (n div 10) @ [char_of (48 + n mod 10)])"

declare decimal.simps [simp del]

definition formatInt :: "int \<Rightarrow> string" where
  "formatInt i = (if i < 0 then CHR ''-'' # decimal (nat (- i)) else decimal (nat i))"

definition jsonEscape :: "char \<Rightarrow> string" where
  "jsonEscape c =
     (let n = (of_char c :: nat) in
      if n = 34 then [CHR 0x5C, CHR 0x22]
      else if n = 92 then [CHR 0x5C, CHR 0x5C]
      else if n = 10 then [CHR 0x5C, CHR ''n'']
      else if n = 13 then [CHR 0x5C, CHR ''r'']
      else if n = 9 then [CHR 0x5C, CHR ''t'']
      else if n < 32 \<or> n = 60 \<or> n = 62 \<or> n = 38
        then [CHR 0x5C, CHR ''u'', CHR ''0'', CHR ''0'', hexDigit (n div 16), hexDigit (n mod 16)]
      else [c])"

definition jsonString :: "string \<Rightarrow> string" where
  "jsonString s = CHR 0x22 # concat (map jsonEscape s) @ [CHR 0x22]"

definition jsonField :: "string \<Rightarrow> string \<Rightarrow> string" where
  "jsonField name v = jsonString name @ '':'' @ v"

fun commaSep :: "string list \<Rightarrow> string" where
  "commaSep [] = []"
| "commaSep [x] = x"
| "commaSep (x # y # r) = x @ '','' @ commaSep (y # r)"

definition jsonObject :: "string list \<Rightarrow> string" where
  "jsonObject members = ''{'' @ commaSep members @ ''}''"

definition jsonArray :: "string list \<Rightarrow> string" where
  "jsonArray elems = ''['' @ commaSep elems @ '']''"

definition marshalTxOutput :: "('a \<Rightarrow> string) \<Rightarrow> 'a TxOutput \<Rightarrow> string" where
  "marshalTxOutput fmtFloat out =
     jsonObject [jsonField ''address'' (jsonString (out_Address out)),
                 jsonField ''amount'' (fmtFloat (out_Amount out))]"

definition marshalTransaction :: "('a \<Rightarrow> string) \<Rightarrow> 'a Transaction \<Rightarrow> string" where
  "marshalTransaction fmtFloat tx =
     jsonObject
       ([jsonField ''txid'' (jsonString (TxID tx)), jsonField ''type'' (jsonString (Type tx))]
        @ (if From tx = [] then [] else [jsonField ''from'' (jsonString (From tx))])
        @ (if To tx = [] then [] else [jsonField ''to'' (jsonString (To tx))])
        @ [jsonField ''amount'' (fmtFloat (Amount tx)), jsonField ''fee'' (fmtFloat (Fee tx)),
           jsonField ''timestamp'' (formatInt (sint (tx_Timestamp tx)))]
        @ (if Signature tx = [] then [] else [jsonField ''signature'' (jsonString (Signature tx))])
        @ (if Outputs tx = [] then []
           else [jsonField ''outputs'' (jsonArray (map (marshalTxOutput fmtFloat) (Outputs tx)))]))"

definition marshalHeader :: "BlockHeader \<Rightarrow> string" where
  "marshalHeader h =
     jsonObject
       [jsonField ''version'' (formatInt (uint (Version h))),
        jsonField ''prev_hash'' (jsonString (PrevHash h)),
        jsonField ''merkle_root'' (jsonString (MerkleRoot h)),
        jsonField ''timestamp'' (formatInt (sint (Timestamp h))),
        jsonField ''bits'' (formatInt (uint (Bits h))),
        jsonField ''nonce'' (formatInt (uint (Nonce h))),
        jsonField ''height'' (formatInt (uint (Height h)))]"

definition marshalBlock :: "('a \<Rightarrow> string) \<Rightarrow> 'a Block \<Rightarrow> string" where
  "marshalBlock fmtFloat b =
     jsonObject
       [jsonField ''header'' (marshalHeader (Header b)),
        jsonField ''transactions''
          (if Transactions b = [] then ''null''
           else jsonArray (map (marshalTransaction fmtFloat) (Transactions b))),
        jsonField ''hash'' (jsonString (Hash b))]"

definition marshalStake :: "('a \<Rightarrow> string) \<Rightarrow> 'a Stake \<Rightarrow> string" where
  "marshalStake fmtFloat st =
     jsonObject
       [jsonField ''address'' (jsonString (stake_Address st)),
        jsonField ''amount'' (fmtFloat (stake_Amount st)),
        jsonField ''block_height'' (formatInt (uint (stake_BlockHeight st)))]"

subsection \<open>Transaction ids and the Merkle root\<close>

definition ComputeTxID :: "('a \<Rightarrow> string) \<Rightarrow> 'a Transaction \<Rightarrow> string" where
  "ComputeTxID fmtFloat tx =
     EncodeToString (SHA256d (bytes_of (jsonObject
       [jsonField ''type'' (jsonString (Type tx)),
        jsonField ''from'' (jsonString (From tx)),
        jsonField ''to'' (jsonString (To tx)),
        jsonField ''amount'' (fmtFloat (Amount tx)),
        jsonField ''timestamp'' (formatInt (sint (tx_Timestamp tx)))])))"

fun merkle_level :: "byte list list \<Rightarrow> byte list list" where
  "merkle_level [] = []"
| "merkle_level [x] = [SHA256d (x @ x)]"
| "merkle_level (x # y # r) = SHA256d (x @ y) # merkle_level r"

lemma length_merkle_level: "length (merkle_level hs) \<le> length hs"
  by (induction hs rule: merkle_level.induct) auto

function merkle_reduce :: "byte list list \<Rightarrow> byte list list" where
  "merkle_reduce hashes =
     (if length hashes > 1 then merkle_reduce (merkle_level hashes) else hashes)"
  by pat_completeness auto
termination
proof (relation "measure length")
  show "wf (measure length)" by simp
next
  fix hashes :: "byte list list"
  assume "1 < length hashes"
  then obtain x y r where "hashes = x # y # r"
    by (cases hashes; cases "tl hashes") auto
  then show "(merkle_level hashes, hashes) \<in> measure length"
    using length_merkle_level [of r] by simp
qed

declare merkle_reduce.simps [simp del]

definition ComputeMerkleRoot :: "('a \<Rightarrow> string) \<Rightarrow> 'a Transaction list \<Rightarrow> string" where
  "ComputeMerkleRoot fmtFloat txs =
     (if txs = [] then replicate 64 CHR ''0''
      else EncodeToString
             (hd (merkle_reduce (map (\<lambda>tx. SHA256d (bytes_of (marshalTransaction fmtFloat tx))) txs))))"

subsection \<open>The genesis block\<close>

text \<open>
  \<open>ts\<close> is the Unix time of the configured genesis timestamp (or of the clock, when the
  timestamp does not parse).
\<close>

definition CreateGenesisBlock ::
  "('a \<Rightarrow> string) \<Rightarrow> ('a::zero) NetworkConfig \<Rightarrow> int64 \<Rightarrow> 'a Block" where
  "CreateGenesisBlock fmtFloat cfg ts =
     (let coinbase0 = \<lparr>TxID = [], Type = ''coinbase'', From = [], To = ''genesis'', Amount = 0,
                       Fee = 0, tx_Timestamp = ts, Signature = [],
                       Outputs = [\<lparr>out_Address = ''genesis'', out_Amount = 0\<rparr>]\<rparr>;
          coinbase = coinbase0\<lparr>TxID := ComputeTxID fmtFloat coinbase0\<rparr>;
          merkle = ComputeMerkleRoot fmtFloat [coinbase];
          header = \<lparr>Version = 1, PrevHash = replicate 64 CHR ''0'', MerkleRoot = merkle,
                    Timestamp = ts, Bits = MinDifficultyBits cfg, Nonce = 0, Height = 0\<rparr>
      in \<lparr>Header = header, Transactions = [coinbase], Hash = ComputeHash header\<rparr>)"

section \<open>The store (storage/store.go)\<close>

datatype error =
    BadHeight | BadPrevHash | BadHash | InsufficientProofOfWork | TooManyTransactions
  | BlockTooLarge | BelowProgressiveFloor
  | ValidationFailed error | DbCommitFailed error | StoreError
  | InsufficientBalance | InsufficientAvailableBalance | BelowMinimumStake | BelowPosThreshold
  | NoStakeFound | InsufficientStake | DivideByZero

text \<open>
  The six buckets of the database; a height key is the height it encodes.  \<open>update_fails\<close>
  stands for the environment: whether a write transaction of the database returns an
  error (and is rolled back as a whole).
\<close>

record Store =
  blocks :: "uint64 \<rightharpoonup> string"
  block_hashes :: "string \<rightharpoonup> uint64"
  balances :: "string \<rightharpoonup> string"
  stakes :: "string \<rightharpoonup> string"
  tx_index :: "string \<rightharpoonup> uint64"
  meta_best_height :: "uint64 option"
  meta_total_minted :: "string option"
  update_fails :: bool

record 'a BlockCommit =
  c_Height :: uint64
  c_Hash :: string
  c_BlockJSON :: string
  c_Balances :: "string \<rightharpoonup> 'a"
  c_Stakes :: "string \<rightharpoonup> string option"
  c_TxIDs :: "string list"
  c_TotalMinted :: 'a

definition NewStore :: "bool \<Rightarrow> Store" where
  "NewStore fails =
     \<lparr>blocks = Map.empty, block_hashes = Map.empty, balances = Map.empty, stakes = Map.empty,
      tx_index = Map.empty, meta_best_height = None, meta_total_minted = None,
      update_fails = fails\<rparr>"

definition store_GetBestHeight :: "Store \<Rightarrow> int64" where
  "store_GetBestHeight s = (case meta_best_height s of None \<Rightarrow> - 1 | Some v \<Rightarrow> v)"

definition GetBlockCount :: "Store \<Rightarrow> uint64" where
  "GetBlockCount s = (let h = store_GetBestHeight s in if sint h < 0 then 0 else h + 1)"

definition HasData :: "Store \<Rightarrow> bool" where
  "HasData s = (sint (store_GetBestHeight s) \<ge> 0)"

definition CommitBlock :: "('a \<Rightarrow> string) \<Rightarrow> Store \<Rightarrow> 'a BlockCommit \<Rightarrow> error option \<times> Store" where
  "CommitBlock fmtFloat s c =
     (if update_fails s then (Some StoreError, s)
      else (None,
        s\<lparr>blocks := (blocks s)(c_Height c \<mapsto> c_BlockJSON c),
          block_hashes := (block_hashes s)(c_Hash c \<mapsto> c_Height c),
          balances := (\<lambda>addr. case c_Balances c addr of None \<Rightarrow> balances s addr
                                | Some v \<Rightarrow> Some (fmtFloat v)),
          stakes := (\<lambda>addr. case c_Stakes c addr of None \<Rightarrow> stakes s addr
                              | Some d \<Rightarrow> d),
          tx_index := (\<lambda>txid. if txid \<in> set (c_TxIDs c) then Some (c_Height c)
                               else tx_index s txid),
          meta_best_height := Some (c_Height c),
          meta_total_minted := Some (fmtFloat (c_TotalMinted c))\<rparr>))"

section \<open>The stake ledger (pos.go)\<close>

definition AddStake :: "(string \<rightharpoonup> ('a::plus) Stake) \<Rightarrow> string \<Rightarrow> 'a \<Rightarrow> uint64 \<Rightarrow> (string \<rightharpoonup> 'a Stake)" where
  "AddStake sm address amount height =
     (case sm address of
        Some s \<Rightarrow> sm(address \<mapsto> s\<lparr>stake_Amount := stake_Amount s + amount\<rparr>)
      | None \<Rightarrow> sm(address \<mapsto> \<lparr>stake_Address = address, stake_Amount = amount,
                                  stake_BlockHeight = height\<rparr>))"

definition RemoveStake ::
  "(string \<rightharpoonup> ('a::{minus,ord,inverse,numeral,power}) Stake) \<Rightarrow> string \<Rightarrow> 'a
     \<Rightarrow> error option \<times> (string \<rightharpoonup> 'a Stake)" where
  "RemoveStake sm address amount =
     (case sm address of
        None \<Rightarrow> (Some NoStakeFound, sm)
      | Some s \<Rightarrow>
          if stake_Amount s < amount then (Some InsufficientStake, sm)
          else
            let s' = s\<lparr>stake_Amount := stake_Amount s - amount\<rparr>
            in if stake_Amount s' < 0.00000001 then (None, sm(address := None))
               else (None, sm(address \<mapsto> s')))"

definition GetStake :: "(string \<rightharpoonup> ('a::zero) Stake) \<Rightarrow> string \<Rightarrow> 'a" where
  "GetStake sm address = (case sm address of Some s \<Rightarrow> stake_Amount s | None \<Rightarrow> 0)"

section \<open>The chain (chain.go)\<close>

record 'a Blockchain =
  Config :: "'a NetworkConfig"
  Store :: Store
  Balances :: "string \<rightharpoonup> 'a"
  Stakes :: "string \<rightharpoonup> 'a Stake"
  Mempool :: "'a Transaction list"
  TotalMinted :: 'a
  lastBlock :: "'a Block option"

text \<open>Reading a Go map at a key it does not hold gives the zero value.\<close>

definition balance_of :: "(string \<rightharpoonup> ('a::zero)) \<Rightarrow> string \<Rightarrow> 'a" where
  "balance_of m k = (case m k of None \<Rightarrow> 0 | Some v \<Rightarrow> v)"

definition collectTxIDs :: "'a Block \<Rightarrow> string list" where
  "collectTxIDs block = map TxID (Transactions block)"

text \<open>
  \<open>NewBlockchain\<close> on a store without data and without a legacy file to migrate: the
  genesis block is created and committed.  \<open>None\<close> is the fatal exit when the commit fails.
\<close>

definition NewBlockchain ::
  "('a \<Rightarrow> string) \<Rightarrow> ('a::zero) NetworkConfig \<Rightarrow> int64 \<Rightarrow> Store \<Rightarrow> 'a Blockchain option" where
  "NewBlockchain fmtFloat cfg ts store0 =
     (let genesis = CreateGenesisBlock fmtFloat cfg ts;
          commit = \<lparr>c_Height = 0, c_Hash = Hash genesis,
                    c_BlockJSON = marshalBlock fmtFloat genesis, c_Balances = Map.empty,
                    c_Stakes = Map.empty, c_TxIDs = collectTxIDs genesis, c_TotalMinted = 0\<rparr>
      in case CommitBlock fmtFloat store0 commit of
           (Some e, _) \<Rightarrow> None
         | (None, store1) \<Rightarrow>
             Some \<lparr>Config = cfg, Store = store1, Balances = Map.empty, Stakes = Map.empty,
                   Mempool = [], TotalMinted = 0, lastBlock = Some genesis\<rparr>)"

definition GetBestHeight :: "'a Blockchain \<Rightarrow> uint64" where
  "GetBestHeight bc = (let h = store_GetBestHeight (Store bc) in if sint h < 0 then 0 else h)"

primrec halve :: "nat \<Rightarrow> ('a::{inverse,numeral}) \<Rightarrow> 'a" where
  "halve 0 reward = reward"
| "halve (Suc i) reward = halve i (reward / 2)"

definition CalcBlockReward ::
  "('a::{zero,minus,ord,inverse,numeral,power}) Blockchain \<Rightarrow> uint64 \<Rightarrow> error + 'a" where
  "CalcBlockReward bc height =
     (if TotalMinted bc \<ge> MaxSupply (Config bc) then Inr 0
      else if HalvingInterval (Config bc) = 0 then Inl DivideByZero
      else
        let halvings = height div HalvingInterval (Config bc);
            reward = halve (unat halvings) (InitialReward (Config bc))
        in if reward < 0.00000001 then Inr 0
           else
             let remaining = MaxSupply (Config bc) - TotalMinted bc
             in if reward > remaining then Inr remaining else Inr reward)"

definition AddToMempool ::
  "('a::{zero,plus,minus,ord}) Blockchain \<Rightarrow> 'a Transaction \<Rightarrow> error option \<times> 'a Blockchain" where
  "AddToMempool bc tx =
     (if Type tx = ''transfer'' \<and> balance_of (Balances bc) (From tx) < Amount tx + Fee tx
      then (Some InsufficientBalance, bc)
      else if Type tx = ''stake'' then
        let available = balance_of (Balances bc) (From tx) - GetStake (Stakes bc) (From tx) in
        if available < Amount tx then (Some InsufficientAvailableBalance, bc)
        else if Amount tx < MinStakeAmount (Config bc) then (Some BelowMinimumStake, bc)
        else
          let totalStake = GetStake (Stakes bc) (From tx) + Amount tx in
          if totalStake < POSMinThreshold (Config bc) then (Some BelowPosThreshold, bc)
          else (None, bc\<lparr>Mempool := Mempool bc @ [tx]\<rparr>)
      else (None, bc\<lparr>Mempool := Mempool bc @ [tx]\<rparr>))"

definition validateBlock :: "('a \<Rightarrow> string) \<Rightarrow> 'a Blockchain \<Rightarrow> 'a Block \<Rightarrow> error option" where
  "validateBlock fmtFloat bc block =
     (let expectedHeight = GetBlockCount (Store bc) in
      if Height (Header block) \<noteq> expectedHeight then Some BadHeight
      else if expectedHeight > 0 \<and> lastBlock bc \<noteq> None
              \<and> PrevHash (Header block) \<noteq> Hash (the (lastBlock bc))
      then Some BadPrevHash
      else if Hash block \<noteq> ComputeHash (Header block) then Some BadHash
      else if \<not> CheckProofOfWork (Hash block) (Bits (Header block))
      then Some InsufficientProofOfWork
      else if (word_of_nat (length (Transactions block)) :: uint64)
                > MaxBlockTransactions (Config bc)
      then Some TooManyTransactions
      else if (word_of_nat (length (marshalBlock fmtFloat block)) :: uint64)
                > MaxBlockSize (Config bc)
      then Some BlockTooLarge
      else
        let floorBits = ProgressiveDifficultyFloor (Height (Header block))
                          (DifficultyEpochBlocks (Config bc)) (MinDifficultyBits (Config bc))
        in if BitsToTarget (Bits (Header block)) > BitsToTarget floorBits
           then Some BelowProgressiveFloor
           else None)"

text \<open>
  The state that the loop of \<open>AddBlock\<close> over the transactions updates: the balances
  and stakes of the chain, the two maps of changes for the store, and the amount minted.
\<close>

record 'a applying =
  a_Balances :: "string \<rightharpoonup> 'a"
  a_Stakes :: "string \<rightharpoonup> 'a Stake"
  changedBalances :: "string \<rightharpoonup> 'a"
  changedStakes :: "string \<rightharpoonup> string option"
  blockMinted :: 'a

definition creditOutput :: "('a::{zero,plus}) applying \<Rightarrow> 'a TxOutput \<Rightarrow> 'a applying" where
  "creditOutput st out =
     (let b = balance_of (a_Balances st) (out_Address out) + out_Amount out
      in st\<lparr>a_Balances := (a_Balances st)(out_Address out \<mapsto> b),
            changedBalances := (changedBalances st)(out_Address out \<mapsto> b),
            blockMinted := blockMinted st + out_Amount out\<rparr>)"

definition applyTx ::
  "('a \<Rightarrow> string) \<Rightarrow> uint64 \<Rightarrow> ('a::{zero,minus,ord,inverse,numeral,power}) applying
     \<Rightarrow> 'a Transaction \<Rightarrow> 'a applying" where
  "applyTx fmtFloat height st tx =
     (if Type tx = ''coinbase'' then foldl creditOutput st (Outputs tx)
      else if Type tx = ''pos_reward'' then foldl creditOutput st (Outputs tx)
      else if Type tx = ''transfer'' then
        let b1 = (a_Balances st)(From tx \<mapsto> balance_of (a_Balances st) (From tx) - (Amount tx + Fee tx));
            b2 = b1(To tx \<mapsto> balance_of b1 (To tx) + Amount tx);
            c1 = (changedBalances st)(From tx \<mapsto> balance_of b2 (From tx));
            c2 = c1(To tx \<mapsto> balance_of b2 (To tx))
        in st\<lparr>a_Balances := b2, changedBalances := c2\<rparr>
      else if Type tx = ''stake'' then
        let b1 = (a_Balances st)(From tx \<mapsto> balance_of (a_Balances st) (From tx) - Amount tx);
            sm = AddStake (a_Stakes st) (From tx) (Amount tx) height
        in st\<lparr>a_Balances := b1,
              changedBalances := (changedBalances st)(From tx \<mapsto> balance_of b1 (From tx)),
              a_Stakes := sm,
              changedStakes := (changedStakes st)(From tx \<mapsto>
                                  Some (case sm (From tx) of
                                          None \<Rightarrow> ''null''
                                        | Some s \<Rightarrow> marshalStake fmtFloat s))\<rparr>
      else if Type tx = ''unstake'' then
        let sm = snd (RemoveStake (a_Stakes st) (From tx) (Amount tx));
            b1 = (a_Balances st)(From tx \<mapsto> balance_of (a_Balances st) (From tx) + Amount tx)
        in st\<lparr>a_Stakes := sm, a_Balances := b1,
              changedBalances := (changedBalances st)(From tx \<mapsto> balance_of b1 (From tx)),
              changedStakes := (changedStakes st)(From tx \<mapsto>
                                  (case sm (From tx) of
                                     None \<Rightarrow> None
                                   | Some s \<Rightarrow> Some (marshalStake fmtFloat s)))\<rparr>
      else st)"

text \<open>
  \<open>AddBlock\<close> returns its error together with the chain as the call leaves it, since the
  chain is updated in place.
\<close>

definition AddBlock ::
  "('a \<Rightarrow> string) \<Rightarrow> ('a::{zero,minus,ord,inverse,numeral,power}) Blockchain \<Rightarrow> 'a Block
     \<Rightarrow> error option \<times> 'a Blockchain" where
  "AddBlock fmtFloat bc block =
     (case validateBlock fmtFloat bc block of
        Some e \<Rightarrow> (Some (ValidationFailed e), bc)
      | None \<Rightarrow>
          let st = foldl (applyTx fmtFloat (Height (Header block)))
                     \<lparr>a_Balances = Balances bc, a_Stakes = Stakes bc,
                      changedBalances = Map.empty, changedStakes = Map.empty, blockMinted = 0\<rparr>
                     (Transactions block);
              bc1 = bc\<lparr>Balances := a_Balances st, Stakes := a_Stakes st,
                       TotalMinted := TotalMinted bc + blockMinted st\<rparr>;
              commit = \<lparr>c_Height = Height (Header block), c_Hash = Hash block,
                        c_BlockJSON = marshalBlock fmtFloat block,
                        c_Balances = changedBalances st, c_Stakes = changedStakes st,
                        c_TxIDs = collectTxIDs block, c_TotalMinted = TotalMinted bc1\<rparr>
          in case CommitBlock fmtFloat (Store bc1) commit of
               (Some e, _) \<Rightarrow> (Some (DbCommitFailed e), bc1)
             | (None, store1) \<Rightarrow>
                 (None,
                  bc1\<lparr>Store := store1,
                      Mempool := filter (\<lambda>tx. TxID tx \<notin> set (collectTxIDs block)) (Mempool bc1),
                      lastBlock := Some block\<rparr>))"

section \<open>What the specification says of mempool admission\<close>

text \<open>
  The rejection rule in the words of the specification, read off the two maps of the
  chain: \<open>balances[from]\<close> is the entry of the balances (0 when there is none) and
  \<open>stakes_of(from)\<close> the amount of the entry of the ledger (0 when there is none).  A
  transfer is rejected when the balance does not cover amount and fee; a stake when the
  available balance does not cover it, when it is below the minimum stake, or when it
  leaves the total stake below the threshold.
\<close>

definition spec_rejects :: "('a::{zero,plus,minus,ord}) Blockchain \<Rightarrow> 'a Transaction \<Rightarrow> bool" where
  "spec_rejects bc tx =
     (let balance = (case Balances bc (From tx) of None \<Rightarrow> 0 | Some v \<Rightarrow> v);
          staked = (case Stakes bc (From tx) of None \<Rightarrow> 0 | Some s \<Rightarrow> stake_Amount s)
      in (Type tx = ''transfer'' \<and> balance < Amount tx + Fee tx)
         \<or> (Type tx = ''stake'' \<and> balance - staked < Amount tx)
         \<or> (Type tx = ''stake'' \<and> Amount tx < MinStakeAmount (Config bc))
         \<or> (Type tx = ''stake'' \<and> staked + Amount tx < POSMinThreshold (Config bc)))"

section \<open>Concrete configurations\<close>

text \<open>The test network of the specification, with amounts in \<open>rat\<close>.\<close>

definition testnet :: "rat NetworkConfig" where
  "testnet =
     \<lparr>InitialReward = 50, HalvingInterval = 100, MaxSupply = 1000000,
      MinDifficultyBits = 0x1F00FFFF, MinStakeAmount = 1, MaxBlockSize = 8388608,
      MaxBlockTransactions = 10000, POSMinThreshold = 10, DifficultyEpochBlocks = 1000\<rparr>"

definition mk_tx :: "string \<Rightarrow> string \<Rightarrow> string \<Rightarrow> string \<Rightarrow> rat \<Rightarrow> rat \<Rightarrow> rat Transaction" where
  "mk_tx txid type from to amount fee =
     \<lparr>TxID = txid, Type = type, From = from, To = to, Amount = amount, Fee = fee,
      tx_Timestamp = 0, Signature = [], Outputs = []\<rparr>"

text \<open>
  A chain in which alice holds 200 with 150 staked and bob holds 50 with 5 staked, and
  whose mempool already holds a transfer.
\<close>

definition chain1 :: "rat Blockchain" where
  "chain1 =
     \<lparr>Config = testnet, Store = NewStore False,
      Balances = [''alice'' \<mapsto> 200, ''bob'' \<mapsto> 50],
      Stakes = [''alice'' \<mapsto> \<lparr>stake_Address = ''alice'', stake_Amount = 150, stake_BlockHeight = 1\<rparr>,
                ''bob'' \<mapsto> \<lparr>stake_Address = ''bob'', stake_Amount = 5, stake_BlockHeight = 1\<rparr>],
      Mempool = [mk_tx ''t0'' ''transfer'' ''alice'' ''bob'' 1 0], TotalMinted = 0,
      lastBlock = None\<rparr>"

definition header1 :: BlockHeader where
  "header1 =
     \<lparr>Version = 2, PrevHash = ''00ff'', MerkleRoot = ''zz'', Timestamp = 1771891200,
      Bits = 0x207fffff, Nonce = 5, Height = 1\<rparr>"

section \<open>Best height\<close>

text \<open>
  C9.  \<open>GetBestHeight\<close> of the chain returns 0 on a store that holds no block, where the
  best height of the store is -1, and returns 0 as well on the chain that \<open>NewBlockchain\<close>
  leaves on a fresh store, which holds the genesis block alone at height 0 (one block).
\<close>

theorem GetBestHeight_empty_and_genesis:
  "store_GetBestHeight (NewStore fails) = - 1
   \<and> GetBestHeight (bc\<lparr>Store := NewStore fails\<rparr>) = 0
   \<and> (case NewBlockchain fmtFloat cfg ts (NewStore False) of
         None \<Rightarrow> False
       | Some g \<Rightarrow> store_GetBestHeight (Store g) = 0 \<and> GetBlockCount (Store g) = 1
                   \<and> GetBestHeight g = 0)"
  by (simp add: store_GetBestHeight_def GetBestHeight_def GetBlockCount_def NewStore_def
        NewBlockchain_def CommitBlock_def Let_def)

section \<open>Mempool admission\<close>

lemmas admission_eval =
  AddToMempool_def spec_rejects_def chain1_def testnet_def mk_tx_def balance_of_def GetStake_def
  Let_def

text \<open>
  C3.  \<open>AddToMempool\<close> returns an error and the chain as it was exactly when the rule of
  the specification rejects the transaction; every other transaction, of whatever type,
  is appended to the end of the mempool and nothing else changes.
\<close>

theorem AddToMempool_rejects_exactly:
  "(spec_rejects bc tx \<longrightarrow> fst (AddToMempool bc tx) \<noteq> None \<and> snd (AddToMempool bc tx) = bc)
   \<and> (\<not> spec_rejects bc tx \<longrightarrow>
        AddToMempool bc tx = (None, bc\<lparr>Mempool := Mempool bc @ [tx]\<rparr>))"
  by (auto simp add: AddToMempool_def spec_rejects_def balance_of_def GetStake_def Let_def)

theorem AddToMempool_rejects_exactly_witness:
  "spec_rejects chain1 (mk_tx ''a'' ''transfer'' ''alice'' ''bob'' 200 1)
   \<and> AddToMempool chain1 (mk_tx ''a'' ''transfer'' ''alice'' ''bob'' 200 1)
       = (Some InsufficientBalance, chain1)
   \<and> spec_rejects chain1 (mk_tx ''b'' ''stake'' ''alice'' [] 100 0)
   \<and> AddToMempool chain1 (mk_tx ''b'' ''stake'' ''alice'' [] 100 0)
       = (Some InsufficientAvailableBalance, chain1)
   \<and> spec_rejects chain1 (mk_tx ''c'' ''stake'' ''bob'' [] (1 / 2) 0)
   \<and> AddToMempool chain1 (mk_tx ''c'' ''stake'' ''bob'' [] (1 / 2) 0)
       = (Some BelowMinimumStake, chain1)
   \<and> spec_rejects chain1 (mk_tx ''d'' ''stake'' ''bob'' [] 4 0)
   \<and> AddToMempool chain1 (mk_tx ''d'' ''stake'' ''bob'' [] 4 0)
       = (Some BelowPosThreshold, chain1)
   \<and> \<not> spec_rejects chain1 (mk_tx ''e'' ''stake'' ''bob'' [] 5 0)
   \<and> Mempool (snd (AddToMempool chain1 (mk_tx ''e'' ''stake'' ''bob'' [] 5 0)))
       = [mk_tx ''t0'' ''transfer'' ''alice'' ''bob'' 1 0, mk_tx ''e'' ''stake'' ''bob'' [] 5 0]
   \<and> \<not> spec_rejects chain1 (mk_tx ''f'' ''transfer'' ''alice'' ''bob'' 199 1)
   \<and> Mempool (snd (AddToMempool chain1 (mk_tx ''f'' ''transfer'' ''alice'' ''bob'' 199 1)))
       = [mk_tx ''t0'' ''transfer'' ''alice'' ''bob'' 1 0,
          mk_tx ''f'' ''transfer'' ''alice'' ''bob'' 199 1]
   \<and> \<not> spec_rejects chain1 (mk_tx ''g'' ''unstake'' ''carol'' [] 1000 0)
   \<and> Mempool (snd (AddToMempool chain1 (mk_tx ''g'' ''unstake'' ''carol'' [] 1000 0)))
       = [mk_tx ''t0'' ''transfer'' ''alice'' ''bob'' 1 0, mk_tx ''g'' ''unstake'' ''carol'' [] 1000 0]"
proof -
  have r1: "spec_rejects chain1 (mk_tx ''a'' ''transfer'' ''alice'' ''bob'' 200 1)"
    and r2: "spec_rejects chain1 (mk_tx ''b'' ''stake'' ''alice'' [] 100 0)"
    and r3: "spec_rejects chain1 (mk_tx ''c'' ''stake'' ''bob'' [] (1 / 2) 0)"
    and r4: "spec_rejects chain1 (mk_tx ''d'' ''stake'' ''bob'' [] 4 0)"
    by (simp_all add: spec_rejects_def chain1_def testnet_def mk_tx_def)
  have a1: "\<not> spec_rejects chain1 (mk_tx ''e'' ''stake'' ''bob'' [] 5 0)"
    and a2: "\<not> spec_rejects chain1 (mk_tx ''f'' ''transfer'' ''alice'' ''bob'' 199 1)"
    and a3: "\<not> spec_rejects chain1 (mk_tx ''g'' ''unstake'' ''carol'' [] 1000 0)"
    by (simp_all add: spec_rejects_def chain1_def testnet_def mk_tx_def)
  have e1: "AddToMempool chain1 (mk_tx ''a'' ''transfer'' ''alice'' ''bob'' 200 1)
              = (Some InsufficientBalance, chain1)"
    and e2: "AddToMempool chain1 (mk_tx ''b'' ''stake'' ''alice'' [] 100 0)
              = (Some InsufficientAvailableBalance, chain1)"
    and e3: "AddToMempool chain1 (mk_tx ''c'' ''stake'' ''bob'' [] (1 / 2) 0)
              = (Some BelowMinimumStake, chain1)"
    and e4: "AddToMempool chain1 (mk_tx ''d'' ''stake'' ''bob'' [] 4 0)
              = (Some BelowPosThreshold, chain1)"
    by (simp_all add: admission_eval)
  have m: "Mempool chain1 = [mk_tx ''t0'' ''transfer'' ''alice'' ''bob'' 1 0]"
    by (simp add: chain1_def)
  show ?thesis
    using r1 r2 r3 r4 a1 a2 a3 e1 e2 e3 e4
      AddToMempool_rejects_exactly [of chain1 "mk_tx ''e'' ''stake'' ''bob'' [] 5 0"]
      AddToMempool_rejects_exactly [of chain1 "mk_tx ''f'' ''transfer'' ''alice'' ''bob'' 199 1"]
      AddToMempool_rejects_exactly [of chain1 "mk_tx ''g'' ''unstake'' ''carol'' [] 1000 0"]
    by (simp add: m)
qed

end
